theory Spec2Isabelle
  imports Complex_Main
begin

section \<open>Gradient explainers of \<open>omnixai/explainers/vision/specific/utils.py\<close>\<close>

text \<open>
  The module is Python over numpy and two automatic-differentiation frameworks.
  The embedding keeps the control flow, the label handling, the accumulation and
  the exceptions of the source. Floating-point numbers are idealised as \<open>real\<close>
  (no rounding, no NaN, no infinity). What the caller supplies (the preprocessing
  function, the model's forward pass, the framework's derivative, the random
  draws) enters as a function that returns a value; evaluation mode and device
  placement (\<open>model.eval()\<close>, \<open>next(model.parameters()).device\<close>, \<open>.to(device)\<close>,
  \<open>.detach().cpu()\<close>) do not change a computed value and are not modelled.
\<close>

subsection \<open>Exceptions\<close>

datatype error =
    AssertionError
  | IndexError
  | ZeroDivisionError
  | ValueError string

subsection \<open>Arrays\<close>

text \<open>
  A numpy array: its shape and its elements in row-major order. An array of the
  program has \<open>length (data a) = prod_list (shape a)\<close>.
\<close>

record 'a ndarray =
  shape :: "nat list"
  data :: "'a list"

definition wf_array :: "'a ndarray \<Rightarrow> bool" where
  "wf_array a = (length (data a) = prod_list (shape a))"

text \<open>\<open>x.squeeze()\<close>: every axis of size 1 is dropped, the elements stay.\<close>

definition squeeze :: "'a ndarray \<Rightarrow> 'a ndarray" where
  "squeeze a = \<lparr>shape = filter (\<lambda>d. d \<noteq> 1) (shape a), data = data a\<rparr>"

text \<open>All multi-indices of a shape, in row-major order, and the flat position of one.\<close>

fun indices :: "nat list \<Rightarrow> nat list list" where
  "indices [] = [[]]"
| "indices (n # ns) = concat (map (\<lambda>i. map ((#) i) (indices ns)) [0..<n])"

fun flat_index :: "nat list \<Rightarrow> nat list \<Rightarrow> nat" where
  "flat_index (n # ns) (i # is) = i * prod_list ns + flat_index ns is"
| "flat_index _ _ = 0"

text \<open>
  \<open>np.transpose(a, axes)\<close>: axis \<open>k\<close> of the result is axis \<open>axes ! k\<close> of \<open>a\<close>.
  numpy raises ValueError when the number of axes is not the rank of the array.
  Both calls of the module pass a constant permutation.
\<close>

definition old_index :: "nat list \<Rightarrow> nat list \<Rightarrow> nat list" where
  "old_index axes js =
     map (\<lambda>d. js ! (length (takeWhile (\<lambda>p. p \<noteq> d) axes))) [0..<length axes]"

definition transpose_array :: "nat list \<Rightarrow> 'a ndarray \<Rightarrow> error + 'a ndarray" where
  "transpose_array axes a =
     (if length axes \<noteq> length (shape a)
      then Inl (ValueError (''axes don'' @ [CHR 0x27] @ ''t match array''))
      else Inr \<lparr>shape = map (\<lambda>p. shape a ! p) axes,
                data = map (\<lambda>js. data a ! flat_index (shape a) (old_index axes js))
                         (indices (map (\<lambda>p. shape a ! p) axes))\<rparr>)"

text \<open>
  \<open>np.min\<close> and \<open>np.max\<close> over all elements; on an array with no element numpy
  raises ValueError.
\<close>

definition np_min :: "real list \<Rightarrow> error + real" where
  "np_min xs = (case xs of
       [] \<Rightarrow> Inl (ValueError ''zero-size array to reduction operation minimum which has no identity'')
     | v # vs \<Rightarrow> Inr (fold min vs v))"

definition np_max :: "real list \<Rightarrow> error + real" where
  "np_max xs = (case xs of
       [] \<Rightarrow> Inl (ValueError ''zero-size array to reduction operation maximum which has no identity'')
     | v # vs \<Rightarrow> Inr (fold max vs v))"

text \<open>\<open>.astype(int)\<close> on a floating-point value truncates towards zero.\<close>

definition astype_int :: "real \<Rightarrow> int" where
  "astype_int v = (if 0 \<le> v then \<lfloor>v\<rfloor> else \<lceil>v\<rceil>)"

subsection \<open>The image container and the preprocessing function\<close>

text \<open>
  Modelled from the spec: the class \<open>Image\<close> of \<open>omnixai.data.image\<close> is not part
  of the module. The spec describes it as a container holding pixel data, a batch
  flag and a channel-order flag, read through \<open>.shape\<close> and \<open>.to_numpy()\<close>, and
  counts the samples of a batch by the leading dimension. The record holds the
  three arguments of the constructor; pixel data is an integer or a
  floating-point array.
\<close>

datatype pixels = IntPixels "int ndarray" | FloatPixels "real ndarray"

record image =
  pixel_data :: pixels
  batched :: bool
  channel_last :: bool

fun to_numpy :: "image \<Rightarrow> real ndarray" where
  "to_numpy img = (case pixel_data img of
       IntPixels a \<Rightarrow> \<lparr>shape = shape a, data = map real_of_int (data a)\<rparr>
     | FloatPixels a \<Rightarrow> a)"

definition image_shape :: "image \<Rightarrow> nat list" where
  "image_shape img = shape (to_numpy img)"

definition image_len :: "image \<Rightarrow> nat" where
  "image_len img = (case image_shape img of [] \<Rightarrow> 0 | n # _ \<Rightarrow> n)"

text \<open>
  What a preprocessing function returns: a numpy array or a tensor of one of the
  two frameworks. \<open>_resize\<close> converts it to a numpy array: an array is kept,
  \<open>x.detach().cpu().numpy()\<close> converts a torch tensor, and on a tensor without
  \<open>detach\<close> the exception is caught and \<open>x.numpy()\<close> converts it.
\<close>

datatype tensor =
    NumpyArray "real ndarray"
  | TorchTensor "real ndarray"
  | TfTensor "real ndarray"

fun as_numpy :: "tensor \<Rightarrow> real ndarray" where
  "as_numpy (NumpyArray a) = a"
| "as_numpy (TorchTensor a) = a"
| "as_numpy (TfTensor a) = a"

type_synonym preprocess = "(image \<Rightarrow> tensor) option"

subsection \<open>\<open>GradMixin._resize\<close>\<close>

text \<open>
  The affine map of lines 38 to 41, applied to every element of \<open>x\<close> and cast to
  integer; \<open>ys\<close> are the elements of the raw image.
\<close>

definition rescale :: "real list \<Rightarrow> real ndarray \<Rightarrow> error + int ndarray" where
  "rescale ys x =
     (case np_min ys of Inl e \<Rightarrow> Inl e | Inr min_a \<Rightarrow>
     (case np_max ys of Inl e \<Rightarrow> Inl e | Inr max_a \<Rightarrow>
     (case np_min (data x) of Inl e \<Rightarrow> Inl e | Inr min_b \<Rightarrow>
     (case np_max (data x) of Inl e \<Rightarrow> Inl e | Inr max_b \<Rightarrow>
        (let r = (max_a - min_a) / (max_b - min_b + 1 / 10 ^ 8)
         in Inr \<lparr>shape = shape x,
                 data = map (\<lambda>v. astype_int (r * v + min_a - r * min_b)) (data x)\<rparr>)))))"

definition resize :: "preprocess \<Rightarrow> image \<Rightarrow> error + image" where
  "resize preprocess_function img =
     (case image_shape img of
        [] \<Rightarrow> Inl IndexError
      | n # _ \<Rightarrow>
          if n \<noteq> 1 then Inl AssertionError
          else (case preprocess_function of
             None \<Rightarrow> Inr img
           | Some f \<Rightarrow>
               (let y = to_numpy img;
                    x = squeeze (as_numpy (f img))
                in case shape x of
                     [] \<Rightarrow> Inl IndexError
                   | d # _ \<Rightarrow>
                       (case (if d = 3 then transpose_array [1, 2, 0] x else Inr x) of
                          Inl e \<Rightarrow> Inl e
                        | Inr x' \<Rightarrow>
                            (case rescale (data y) x' of
                               Inl e \<Rightarrow> Inl e
                             | Inr d' \<Rightarrow>
                                 Inr \<lparr>pixel_data = IntPixels d', batched = False,
                                      channel_last = True\<rparr>)))))"

subsection \<open>Models, labels and noise\<close>

text \<open>
  A model, as far as the module looks at it: the text that \<open>type(model)\<close>
  prints, whether it is an instance of \<open>torch.nn.Module\<close> and of
  \<open>tf.keras.Model\<close>, its forward pass, and the derivative that the framework
  computes. The output of the forward pass is a matrix, one row of scores per
  sample (on a matrix, axis 1 and the last axis are the same axis).
  \<open>gradient m y x j\<close> is component \<open>j\<close> of the derivative, with respect to the
  input \<open>x\<close>, of the outputs of the model at \<open>x\<close>, selected by the labels \<open>y\<close>
  when there are labels: lines 89 to 92 for torch
  (\<open>torch.autograd.grad(torch.unbind(outputs[idx, y]), x)[0]\<close>), lines 140 to 143
  for tensorflow (\<open>tape.gradient\<close> of the gathered outputs). The derivative has
  the shape of \<open>x\<close>.
\<close>

record model =
  type_repr :: string
  is_torch_module :: bool
  is_keras_model :: bool
  forward :: "real ndarray \<Rightarrow> real list list"
  gradient :: "int list option \<Rightarrow> real ndarray \<Rightarrow> nat \<Rightarrow> real"

text \<open>The parameter \<open>y\<close>, when it is not None: one integer, or a sequence of labels.\<close>

datatype y_arg = YInt int | YSeq "int list"

text \<open>
  \<open>inputs\<close>: the preprocessing function applied to the batch, or the batch as an
  array; then converted to a tensor of the framework, which keeps the values.
\<close>

definition working_input :: "preprocess \<Rightarrow> image \<Rightarrow> real ndarray" where
  "working_input preprocess_function X =
     (case preprocess_function of Some f \<Rightarrow> as_numpy (f X) | None \<Rightarrow> to_numpy X)"

text \<open>
  \<open>np.argmax\<close> of one row: the first position of the greatest score; numpy
  raises ValueError on a row with no element.
\<close>

fun argmax_from :: "nat \<Rightarrow> real \<Rightarrow> nat \<Rightarrow> real list \<Rightarrow> nat" where
  "argmax_from best bv i [] = best"
| "argmax_from best bv i (v # vs) =
     (if bv < v then argmax_from i v (Suc i) vs else argmax_from best bv (Suc i) vs)"

definition argmax_row :: "real list \<Rightarrow> error + int" where
  "argmax_row row = (case row of
       [] \<Rightarrow> Inl (ValueError ''attempt to get argmax of an empty sequence'')
     | v # vs \<Rightarrow> Inr (int (argmax_from 0 v 1 vs)))"

fun map_err :: "('a \<Rightarrow> error + 'b) \<Rightarrow> 'a list \<Rightarrow> error + 'b list" where
  "map_err f [] = Inr []"
| "map_err f (x # xs) =
     (case f x of
        Inl e \<Rightarrow> Inl e
      | Inr v \<Rightarrow> (case map_err f xs of Inl e \<Rightarrow> Inl e | Inr vs \<Rightarrow> Inr (v # vs)))"

text \<open>
  The resolution of the labels: lines 62 to 75 of \<open>_smooth_grad_torch\<close>, repeated
  as lines 113 to 126 of \<open>_smooth_grad_tf\<close> and lines 209 to 222 of
  \<open>_guided_bp_torch\<close>. \<open>n\<close> is \<open>len(X)\<close> and \<open>outputs\<close> the output of the model
  on the working input.
\<close>

definition resolve_labels ::
    "string \<Rightarrow> y_arg option \<Rightarrow> nat \<Rightarrow> real list list \<Rightarrow> error + int list option" where
  "resolve_labels mode y n outputs =
     (if mode = ''classification'' then
        (case y of
           Some (YInt k) \<Rightarrow> Inr (Some (replicate n k))
         | Some (YSeq ys) \<Rightarrow> if n = length ys then Inr (Some ys) else Inl AssertionError
         | None \<Rightarrow>
             (case map_err argmax_row outputs of
                Inl e \<Rightarrow> Inl e
              | Inr ys \<Rightarrow> Inr (Some ys)))
      else Inr None)"

text \<open>
  The noise: \<open>randn i j\<close> is element \<open>j\<close> of the array that the \<open>i\<close>-th call of
  \<open>np.random.randn(*inputs.shape)\<close> in the loop returns, so a fixed \<open>randn\<close>
  replays fixed draws. The perturbed input is \<open>input_images + noise\<close>.
\<close>

definition perturbed :: "real ndarray \<Rightarrow> real \<Rightarrow> (nat \<Rightarrow> nat \<Rightarrow> real) \<Rightarrow> nat \<Rightarrow> real ndarray" where
  "perturbed input_images sigma randn i =
     \<lparr>shape = shape input_images,
      data = map2 (+) (data input_images)
               (map (\<lambda>j. randn i j * sigma) [0..<prod_list (shape input_images)])\<rparr>"

definition grad_array :: "model \<Rightarrow> int list option \<Rightarrow> real ndarray \<Rightarrow> real ndarray" where
  "grad_array m y x = \<lparr>shape = shape x, data = map (gradient m y x) [0..<length (data x)]\<rparr>"

text \<open>
  The accumulator \<open>gradients\<close>: the Python number 0 before the first iteration,
  an array after it. \<open>gradients += grad\<close> adds element by element. An array
  accumulator and a gradient have the shape of the working input, both.
\<close>

datatype gradients = Scalar real | Array "real ndarray"

fun acc_add :: "gradients \<Rightarrow> real ndarray \<Rightarrow> gradients" where
  "acc_add (Scalar c) g = Array \<lparr>shape = shape g, data = map (\<lambda>v. c + v) (data g)\<rparr>"
| "acc_add (Array a) g = Array \<lparr>shape = shape a, data = map2 (+) (data a) (data g)\<rparr>"

text \<open>
  \<open>gradients / num_samples\<close>. When the loop has not run, the accumulator is still
  the number 0 and dividing it by 0 raises ZeroDivisionError. An array
  accumulator exists after an iteration only, so \<open>num_samples\<close> is positive then.
\<close>

fun acc_div :: "gradients \<Rightarrow> int \<Rightarrow> error + gradients" where
  "acc_div (Scalar c) k =
     (if k = 0 then Inl ZeroDivisionError else Inr (Scalar (c / real_of_int k)))"
| "acc_div (Array a) k =
     Inr (Array \<lparr>shape = shape a, data = map (\<lambda>v. v / real_of_int k) (data a)\<rparr>)"

text \<open>\<open>np.transpose(gradients, (0, 2, 3, 1))\<close>; a number is an array of rank 0 there.\<close>

fun acc_transpose :: "gradients \<Rightarrow> error + gradients" where
  "acc_transpose (Scalar c) =
     (case transpose_array [0, 2, 3, 1] \<lparr>shape = [], data = [c]\<rparr> of
        Inl e \<Rightarrow> Inl e | Inr a \<Rightarrow> Inr (Array a))"
| "acc_transpose (Array a) =
     (case transpose_array [0, 2, 3, 1] a of Inl e \<Rightarrow> Inl e | Inr b \<Rightarrow> Inr (Array b))"

subsection \<open>\<open>_smooth_grad_torch\<close> and \<open>_smooth_grad_tf\<close>\<close>

definition sample_loop ::
    "model \<Rightarrow> int list option \<Rightarrow> real ndarray \<Rightarrow> real \<Rightarrow> (nat \<Rightarrow> nat \<Rightarrow> real) \<Rightarrow> int \<Rightarrow> gradients" where
  "sample_loop m y input_images sigma randn num_samples =
     fold (\<lambda>i gradients. acc_add gradients (grad_array m y (perturbed input_images sigma randn i)))
       [0..<nat num_samples] (Scalar 0)"

definition smooth_grad_torch ::
    "image \<Rightarrow> y_arg option \<Rightarrow> model \<Rightarrow> preprocess \<Rightarrow> string \<Rightarrow> int \<Rightarrow> real
      \<Rightarrow> (nat \<Rightarrow> nat \<Rightarrow> real) \<Rightarrow> error + gradients \<times> int list option" where
  "smooth_grad_torch X y m preprocess_function mode num_samples sigma randn =
     (let inputs = working_input preprocess_function X;
          outputs = forward m inputs
      in case resolve_labels mode y (image_len X) outputs of
           Inl e \<Rightarrow> Inl e
         | Inr y' \<Rightarrow>
            (case np_max (data inputs) of Inl e \<Rightarrow> Inl e | Inr mx \<Rightarrow>
            (case np_min (data inputs) of Inl e \<Rightarrow> Inl e | Inr mn \<Rightarrow>
            (case acc_div (sample_loop m y' inputs (sigma * (mx - mn)) randn num_samples)
                    num_samples of
               Inl e \<Rightarrow> Inl e
             | Inr g \<Rightarrow>
                (case acc_transpose g of Inl e \<Rightarrow> Inl e | Inr g' \<Rightarrow> Inr (g', y'))))))"

definition smooth_grad_tf ::
    "image \<Rightarrow> y_arg option \<Rightarrow> model \<Rightarrow> preprocess \<Rightarrow> string \<Rightarrow> int \<Rightarrow> real
      \<Rightarrow> (nat \<Rightarrow> nat \<Rightarrow> real) \<Rightarrow> error + gradients \<times> int list option" where
  "smooth_grad_tf X y m preprocess_function mode num_samples sigma randn =
     (let inputs = working_input preprocess_function X
      in case resolve_labels mode y (image_len X) (forward m inputs) of
           Inl e \<Rightarrow> Inl e
         | Inr y' \<Rightarrow>
            (case np_max (data inputs) of Inl e \<Rightarrow> Inl e | Inr mx \<Rightarrow>
            (case np_min (data inputs) of Inl e \<Rightarrow> Inl e | Inr mn \<Rightarrow>
            (case acc_div (sample_loop m y' inputs (sigma * (mx - mn)) randn num_samples)
                    num_samples of
               Inl e \<Rightarrow> Inl e
             | Inr g \<Rightarrow> Inr (g, y')))))"

subsection \<open>\<open>smooth_grad\<close>\<close>

text \<open>
  \<open>is_torch_available()\<close> and \<open>is_tf_available()\<close> of \<open>omnixai.utils.misc\<close> report
  what is installed; the two answers are parameters.
\<close>

record frameworks =
  torch_available :: bool
  tf_available :: bool

definition smooth_grad ::
    "frameworks \<Rightarrow> image \<Rightarrow> y_arg option \<Rightarrow> model \<Rightarrow> preprocess \<Rightarrow> string \<Rightarrow> int \<Rightarrow> real
      \<Rightarrow> (nat \<Rightarrow> nat \<Rightarrow> real) \<Rightarrow> error + gradients \<times> int list option" where
  "smooth_grad env X y m preprocess_function mode num_samples sigma randn =
     (if torch_available env \<and> is_torch_module m
      then smooth_grad_torch X y m preprocess_function mode num_samples sigma randn
      else if tf_available env \<and> is_keras_model m
      then smooth_grad_tf X y m preprocess_function mode num_samples sigma randn
      else Inl (ValueError
             (''`model` should be a tf.keras.Model or a torch.nn.Module instead of ''
               @ type_repr m)))"

subsection \<open>\<open>_guided_bp_torch\<close>\<close>

text \<open>
  The two local functions. \<open>relu_outputs\<close> is a list used as a stack, the most
  recent activation last. \<open>_forward_hook\<close> appends the output of a layer.
  \<open>_backward_hook\<close> takes the last activation, writes 1 at every position where
  it is positive (the other positions keep their value), multiplies it, element
  by element, by the first incoming gradient clamped below at 0, deletes the
  activation from the list and returns the product as a tuple of one tensor.
  \<open>relu_outputs[-1]\<close> on an empty list and \<open>_inputs[0]\<close> on an empty tuple raise
  IndexError. In a backward pass the gradient that reaches a layer has the shape
  of the output of the layer.
\<close>

definition forward_hook :: "real ndarray list \<Rightarrow> real ndarray \<Rightarrow> real ndarray list" where
  "forward_hook relu_outputs outputs = relu_outputs @ [outputs]"


text \<open>
  What \<open>_guided_bp_torch\<close> leaves behind: the value it returns (None when the
  function ends without a return statement), the handles in \<open>hooks\<close> and the
  stack \<open>relu_outputs\<close> at that moment, and the handles on which the cleanup
  (the \<open>finally\<close> block, after the empty \<open>try\<close> body) called \<open>remove\<close>.
\<close>

datatype hook_handle = ForwardHandle nat | BackwardHandle nat

record guided_bp_end =
  returned :: "(gradients \<times> int list option) option"
  hooks_left :: "hook_handle list"
  activations_left :: "real ndarray list"
  removed :: "hook_handle list"

definition guided_bp_torch ::
    "image \<Rightarrow> y_arg option \<Rightarrow> model \<Rightarrow> preprocess \<Rightarrow> string \<Rightarrow> int \<Rightarrow> real
      \<Rightarrow> error + guided_bp_end" where
  "guided_bp_torch X y m preprocess_function mode num_samples sigma =
     (let inputs = working_input preprocess_function X;
          outputs = forward m inputs
      in case resolve_labels mode y (image_len X) outputs of
           Inl e \<Rightarrow> Inl e
         | Inr y' \<Rightarrow>
            (let hooks = [];
                 relu_outputs = []
             in Inr \<lparr>returned = None, hooks_left = hooks, activations_left = relu_outputs,
                     removed = fold (\<lambda>hook done. done @ [hook]) hooks []\<rparr>))"

subsection \<open>The words of the specification\<close>


text \<open>
  The arithmetic mean of a non-empty list of arrays of one shape: at every
  position, the sum of the elements at that position divided by the number of
  arrays.
\<close>

definition arith_mean :: "real ndarray list \<Rightarrow> real ndarray" where
  "arith_mean gs =
     \<lparr>shape = shape (hd gs),
      data = map (\<lambda>j. (\<Sum>g\<leftarrow>gs. data g ! j) / real (length gs)) [0..<length (data (hd gs))]\<rparr>"

subsection \<open>A small batch and two models, for the examples\<close>

text \<open>
  A batch of two images of 2 by 2 by 1 values, a model that both frameworks
  would accept as theirs, an object that is no model, and noise whose \<open>i\<close>-th
  draw is the constant \<open>i\<close>.
\<close>

definition example_batch :: image where
  "example_batch =
     \<lparr>pixel_data = FloatPixels \<lparr>shape = [2, 2, 2, 1], data = [0, 1, 2, 3, 4, 5, 6, 7]\<rparr>,
      batched = True, channel_last = True\<rparr>"

definition example_model :: model where
  "example_model =
     \<lparr>type_repr = ''<class MyNet>'', is_torch_module = True, is_keras_model = True,
      forward = (\<lambda>x. [[data x ! 0, 1, 1 / 2], [0, data x ! 7, 9]]),
      gradient = (\<lambda>y x j. 2 * (data x ! j)
                    + (case y of None \<Rightarrow> 0 | Some ys \<Rightarrow> real_of_int (sum_list ys)))\<rparr>"

definition example_randn :: "nat \<Rightarrow> nat \<Rightarrow> real" where
  "example_randn i j = real i"

definition example_other :: model where
  "example_other =
     \<lparr>type_repr = ''<class '' @ [CHR 0x27] @ ''dict'' @ [CHR 0x27] @ ''>'',
      is_torch_module = False, is_keras_model = False,
      forward = (\<lambda>x. []), gradient = (\<lambda>y x j. 0)\<rparr>"

section \<open>Arrays stay well formed\<close>

text \<open>
  Squeezing, transposing, perturbing and differentiating give arrays whose number
  of elements is the product of their shape.
\<close>

lemma squeeze_wf:
  assumes "wf_array a"
  shows "wf_array (squeeze a)"
proof -
  have "prod_list (filter (\<lambda>d. d \<noteq> 1) s) = prod_list s" for s :: "nat list"
    by (induction s) simp_all
  with assms show ?thesis by (simp add: wf_array_def squeeze_def)
qed

lemma length_indices: "length (indices s) = prod_list s"
  by (induction s) (simp_all add: length_concat comp_def sum_list_triv)

lemma transpose_array_wf:
  assumes "transpose_array axes a = Inr b"
  shows "wf_array b"
  using assms by (auto simp: transpose_array_def wf_array_def length_indices split: if_splits)

lemma perturbed_wf:
  assumes "wf_array a"
  shows "wf_array (perturbed a sg randn i)"
    and "wf_array (grad_array m y (perturbed a sg randn i))"
  using assms by (simp_all add: wf_array_def perturbed_def grad_array_def)

section \<open>Properties of \<open>_resize\<close>\<close>

lemma np_min_Min:
  assumes "xs \<noteq> []"
  shows "np_min xs = Inr (Min (set xs))"
proof (cases xs)
  case Nil
  with assms show ?thesis by simp
next
  case (Cons v vs)
  then show ?thesis
    using Min.set_eq_fold [of v vs] by (simp add: np_min_def)
qed

lemma np_max_Max:
  assumes "xs \<noteq> []"
  shows "np_max xs = Inr (Max (set xs))"
proof (cases xs)
  case Nil
  with assms show ?thesis by simp
next
  case (Cons v vs)
  then show ?thesis
    using Max.set_eq_fold [of v vs] by (simp add: np_max_def)
qed


lemma transpose_array_rank:
  "(\<exists>b. transpose_array axes a = Inr b) \<longleftrightarrow> length axes = length (shape a)"
  by (simp add: transpose_array_def)

text \<open>The channel-first to channel-last reordering on a small array.\<close>

lemma transpose_array_example:
  "transpose_array [1, 2, 0] \<lparr>shape = [3, 2, 2], data = [0, 1, 2, 3, 4, 5, 6, 7, 8, 9, 10, 11 :: int]\<rparr>
     = Inr \<lparr>shape = [2, 2, 3], data = [0, 4, 8, 1, 5, 9, 2, 6, 10, 3, 7, 11]\<rparr>"
  by (simp add: transpose_array_def old_index_def upt_rec)




text \<open>
  C2. With no preprocessing function, \<open>_resize\<close> of an image whose batch size is 1
  returns the image it was given: same pixel data, same flags.
\<close>

theorem resize_identity:
  assumes "image_shape img = 1 # rest"
  shows "resize None img = Inr img"
  using assms by (simp add: resize_def)

theorem resize_identity_witness:
  "resize None \<lparr>pixel_data = IntPixels \<lparr>shape = [1, 1, 2, 1], data = [0, 255]\<rparr>,
                batched = True, channel_last = True\<rparr>
     = Inr \<lparr>pixel_data = IntPixels \<lparr>shape = [1, 1, 2, 1], data = [0, 255]\<rparr>,
            batched = True, channel_last = True\<rparr>"
  using resize_identity
    [of "\<lparr>pixel_data = IntPixels \<lparr>shape = [1, 1, 2, 1], data = [0, 255]\<rparr>,
          batched = True, channel_last = True\<rparr>" "[1, 2, 1]"]
  by (simp add: image_shape_def)

text \<open>
  C3. On an image whose batch size (the leading dimension of its shape) is
  greater than 1, \<open>_resize\<close> fails with an assertion error, with or without a
  preprocessing function.
\<close>

theorem resize_batch_assertion:
  assumes "image_shape img = n # rest" and "1 < n"
  shows "resize preprocess_function img = Inl AssertionError"
  using assms by (simp add: resize_def)

theorem resize_batch_assertion_witness:
  "resize None \<lparr>pixel_data = IntPixels \<lparr>shape = [2, 1, 1, 1], data = [0, 255]\<rparr>,
                batched = True, channel_last = True\<rparr> = Inl AssertionError
   \<and> resize (Some (\<lambda>_. NumpyArray \<lparr>shape = [2, 1, 1, 1], data = [0, 1]\<rparr>))
        \<lparr>pixel_data = IntPixels \<lparr>shape = [2, 1, 1, 1], data = [0, 255]\<rparr>,
         batched = True, channel_last = True\<rparr> = Inl AssertionError"
  using resize_batch_assertion
    [of "\<lparr>pixel_data = IntPixels \<lparr>shape = [2, 1, 1, 1], data = [0, 255]\<rparr>,
          batched = True, channel_last = True\<rparr>" 2 "[1, 1, 1]"]
  by (simp add: image_shape_def)

section \<open>Properties of the SmoothGrad engines\<close>

subsection \<open>The arg-max of a row and the resolved labels\<close>







subsection \<open>The loop over the noisy copies\<close>

lemma fold_acc_add:
  assumes "gs \<noteq> []" and "\<forall>g\<in>set gs. shape g = s \<and> length (data g) = L"
  shows "fold (\<lambda>g acc. acc_add acc g) gs (Scalar 0)
       = Array \<lparr>shape = s, data = map (\<lambda>j. \<Sum>g\<leftarrow>gs. data g ! j) [0..<L]\<rparr>"
  using assms
proof (induction gs rule: rev_nonempty_induct)
  case (single g)
  then have g: "shape g = s" "length (data g) = L" by simp_all
  have a: "map ((+) 0) (data g) = data g"
    by (rule map_idI) simp
  have b: "map ((!) (data g)) [0..<L] = data g"
    using g(2) map_nth [of "data g"] by simp
  from g(1) show ?case by (simp add: a b)
next
  case (snoc g gs)
  then have g: "length (data g) = L" by simp
  have "map2 (+) (map (\<lambda>j. \<Sum>h\<leftarrow>gs. data h ! j) [0..<L]) (data g)
      = map (\<lambda>j. \<Sum>h\<leftarrow>gs @ [g]. data h ! j) [0..<L]"
    using g by (intro nth_equalityI) simp_all
  with snoc show ?case by simp
qed

lemma grad_array_same:
  "shape (grad_array m y (perturbed a sg randn i)) = shape a"
  "length (data (grad_array m y (perturbed a sg randn i)))
     = min (length (data a)) (prod_list (shape a))"
  by (simp_all add: grad_array_def perturbed_def)

lemma sample_loop_sum:
  assumes "1 \<le> K"
  shows "acc_div (sample_loop m y a sg randn K) K
       = Inr (Array (arith_mean (map (\<lambda>i. grad_array m y (perturbed a sg randn i)) [0..<nat K])))"
proof -
  let ?G = "\<lambda>i. grad_array m y (perturbed a sg randn i)"
  let ?gs = "map ?G [0..<nat K]"
  let ?L = "min (length (data a)) (prod_list (shape a))"
  from assms have ne: "?gs \<noteq> []" by simp
  have same: "\<forall>g\<in>set ?gs. shape g = shape a \<and> length (data g) = ?L"
    by (auto simp: grad_array_same)
  have "sample_loop m y a sg randn K = fold (\<lambda>g acc. acc_add acc g) ?gs (Scalar 0)"
    by (simp add: sample_loop_def fold_map comp_def)
  also have "\<dots> = Array \<lparr>shape = shape a, data = map (\<lambda>j. \<Sum>g\<leftarrow>?gs. data g ! j) [0..<?L]\<rparr>"
    by (rule fold_acc_add [OF ne same])
  finally have loop: "sample_loop m y a sg randn K
      = Array \<lparr>shape = shape a, data = map (\<lambda>j. \<Sum>g\<leftarrow>?gs. data g ! j) [0..<?L]\<rparr>" .
  from assms have hd: "hd ?gs = ?G 0"
    by (simp add: hd_map upt_conv_Cons)
  from assms have len: "real (length ?gs) = real_of_int K" by simp
  have "arith_mean ?gs
      = \<lparr>shape = shape a,
         data = map (\<lambda>j. (\<Sum>g\<leftarrow>?gs. data g ! j) / real_of_int K) [0..<?L]\<rparr>"
    unfolding arith_mean_def hd len by (simp add: grad_array_same)
  with loop show ?thesis by (simp add: comp_def)
qed

text \<open>
  With at least one sample, a working input that has an element and labels that
  resolve, the tensorflow engine returns an array; the torch engine does when the
  working input has four axes, which the final reordering needs.
\<close>

lemma smooth_grad_tf_returns:
  assumes "1 \<le> K" and "data (working_input pf X) \<noteq> []"
    and "resolve_labels mode y (image_len X) (forward m (working_input pf X)) = Inr y'"
  shows "\<exists>g. smooth_grad_tf X y m pf mode K sigma randn = Inr (Array g, y')"
  using assms(3)
  by (simp add: smooth_grad_tf_def Let_def np_max_Max [OF assms(2)] np_min_Min [OF assms(2)]
      sample_loop_sum [OF assms(1)])

lemma arith_mean_shape:
  assumes "1 \<le> K"
  shows "shape (arith_mean (map G [0..<nat K])) = shape (G 0)"
proof -
  from assms have "[0..<nat K] = 0 # [1..<nat K]" by (simp add: upt_conv_Cons)
  then show ?thesis by (simp add: arith_mean_def)
qed

lemma smooth_grad_torch_returns:
  assumes "1 \<le> K" and "data (working_input pf X) \<noteq> []"
    and "length (shape (working_input pf X)) = 4"
    and "resolve_labels mode y (image_len X) (forward m (working_input pf X)) = Inr y'"
  shows "\<exists>g. smooth_grad_torch X y m pf mode K sigma randn = Inr (Array g, y')"
  using assms(3,4)
  by (simp add: smooth_grad_torch_def Let_def np_max_Max [OF assms(2)] np_min_Min [OF assms(2)]
      sample_loop_sum [OF assms(1)] arith_mean_shape [OF assms(1)] grad_array_same
      transpose_array_def)

subsection \<open>The engines on the example batch\<close>

lemmas example_defs = example_batch_def example_model_def example_randn_def

lemmas engine_defs = working_input_def image_len_def image_shape_def resolve_labels_def
  argmax_row_def np_max_def np_min_def sample_loop_def grad_array_def perturbed_def

lemma example_tf_run:
  "smooth_grad_tf example_batch None example_model None ''classification'' 2 (1 / 7) example_randn
     = Inr (Array \<lparr>shape = [2, 2, 2, 1], data = [4, 6, 8, 10, 12, 14, 16, 18]\<rparr>, Some [1, 2])"
  by (simp add: smooth_grad_tf_def example_defs engine_defs upt_rec Let_def)

lemma example_torch_run:
  "smooth_grad_torch example_batch None example_model None ''classification'' 2 (1 / 7) example_randn
     = Inr (Array \<lparr>shape = [2, 2, 1, 2], data = [4, 8, 6, 10, 12, 16, 14, 18]\<rparr>, Some [1, 2])"
  by (simp add: smooth_grad_torch_def example_defs engine_defs transpose_array_def old_index_def
      upt_rec Let_def)

lemma example_mean:
  "arith_mean (map (\<lambda>i. grad_array example_model (Some [1, 2])
                     (perturbed (working_input None example_batch) (1 / 7 * (7 - 0)) example_randn i))
                [0..<nat 2])
     = \<lparr>shape = [2, 2, 2, 1], data = [4, 6, 8, 10, 12, 14, 16, 18]\<rparr>"
  by (simp add: arith_mean_def example_defs engine_defs upt_rec Let_def)

subsection \<open>The claims\<close>

text \<open>
  C4. When the model is neither an instance of \<open>torch.nn.Module\<close> with torch
  installed nor an instance of \<open>tf.keras.Model\<close> with tensorflow installed,
  \<open>smooth_grad\<close> raises ValueError, and the message ends with the type of the
  model. The torch check comes first: a model that passes it goes to the torch
  engine, whatever the tensorflow check would say.
\<close>

theorem smooth_grad_dispatch:
  "(\<not> (torch_available env \<and> is_torch_module m) \<and> \<not> (tf_available env \<and> is_keras_model m)
      \<longrightarrow> smooth_grad env X y m pf mode K sigma randn
          = Inl (ValueError (''`model` should be a tf.keras.Model or a torch.nn.Module instead of ''
                              @ type_repr m)))
   \<and> (torch_available env \<and> is_torch_module m
      \<longrightarrow> smooth_grad env X y m pf mode K sigma randn
          = smooth_grad_torch X y m pf mode K sigma randn)"
  by (simp add: smooth_grad_def)

theorem smooth_grad_dispatch_witness:
  "smooth_grad \<lparr>torch_available = True, tf_available = True\<rparr> example_batch None example_other None
       ''classification'' 2 (1 / 7) example_randn
     = Inl (ValueError (''`model` should be a tf.keras.Model or a torch.nn.Module instead of <class ''
                         @ [CHR 0x27] @ ''dict'' @ [CHR 0x27] @ ''>''))
   \<and> smooth_grad \<lparr>torch_available = True, tf_available = True\<rparr> example_batch None example_model None
       ''classification'' 2 (1 / 7) example_randn
     = Inr (Array \<lparr>shape = [2, 2, 1, 2], data = [4, 8, 6, 10, 12, 16, 14, 18]\<rparr>, Some [1, 2])"
  using smooth_grad_dispatch
      [of "\<lparr>torch_available = True, tf_available = True\<rparr>" example_other example_batch None None
          "''classification''" 2 "1 / 7" example_randn]
    smooth_grad_dispatch
      [of "\<lparr>torch_available = True, tf_available = True\<rparr>" example_model example_batch None None
          "''classification''" 2 "1 / 7" example_randn]
    example_torch_run
  by (simp add: example_other_def example_model_def)

text \<open>
  C5. In classification mode, on a batch \<open>X\<close> of \<open>n = len(X)\<close> samples, each
  engine called with the single integer label \<open>k\<close> gives the result it gives
  when called with the sequence of \<open>n\<close> labels \<open>k\<close>, the noise draws being the
  same: the integer is replaced by that sequence before the loop.
\<close>

theorem label_broadcast:
  "smooth_grad_torch X (Some (YInt k)) m pf ''classification'' K sigma randn
     = smooth_grad_torch X (Some (YSeq (replicate (image_len X) k))) m pf ''classification'' K sigma randn
   \<and> smooth_grad_tf X (Some (YInt k)) m pf ''classification'' K sigma randn
     = smooth_grad_tf X (Some (YSeq (replicate (image_len X) k))) m pf ''classification'' K sigma randn"
  by (simp add: smooth_grad_torch_def smooth_grad_tf_def resolve_labels_def)





text \<open>
  C8, as stated: the array that the engine returns is the arithmetic mean of the
  per-iteration gradients. The torch engine returns it with the axes reordered
  (line 96, \<open>np.transpose(gradients, (0, 2, 3, 1))\<close>): on the example batch the
  mean of the two gradients has shape \<open>(2, 2, 2, 1)\<close> and the array returned has
  shape \<open>(2, 2, 1, 2)\<close>, with the elements in another order.
\<close>

theorem smooth_grad_mean_counterexample:
  "smooth_grad_torch example_batch None example_model None ''classification'' 2 (1 / 7) example_randn
     = Inr (Array \<lparr>shape = [2, 2, 1, 2], data = [4, 8, 6, 10, 12, 16, 14, 18]\<rparr>, Some [1, 2])
   \<and> arith_mean (map (\<lambda>i. grad_array example_model (Some [1, 2])
                     (perturbed (working_input None example_batch) (1 / 7 * (7 - 0)) example_randn i))
                [0..<nat 2])
     = \<lparr>shape = [2, 2, 2, 1], data = [4, 6, 8, 10, 12, 14, 16, 18]\<rparr>
   \<and> smooth_grad_torch example_batch None example_model None ''classification'' 2 (1 / 7) example_randn
     \<noteq> Inr (Array (arith_mean (map (\<lambda>i. grad_array example_model (Some [1, 2])
                     (perturbed (working_input None example_batch) (1 / 7 * (7 - 0)) example_randn i))
                [0..<nat 2])), Some [1, 2])"
  unfolding example_torch_run example_mean by simp

text \<open>
  C8, amended: for \<open>num_samples = K \<ge> 1\<close> and fixed noise draws, the array that
  the tensorflow engine returns is the arithmetic mean of the \<open>K\<close> per-iteration
  gradients, and the array that the torch engine returns is that mean with its
  axes reordered from \<open>(0, 1, 2, 3)\<close> to \<open>(0, 2, 3, 1)\<close>. The gradient of iteration
  \<open>i\<close> is taken at the working input plus the \<open>i\<close>-th draw scaled by
  \<open>sigma * (max(input) - min(input))\<close>, maximum and minimum over the whole working
  input.
\<close>

theorem smooth_grad_mean:
  assumes "1 \<le> K"
  shows "let inputs = working_input pf X;
             sigma_eff = sigma * (Max (set (data inputs)) - Min (set (data inputs)));
             mean = (\<lambda>y'. arith_mean
                       (map (\<lambda>i. grad_array m y' (perturbed inputs sigma_eff randn i)) [0..<nat K]))
         in (\<forall>g y'. smooth_grad_tf X y m pf mode K sigma randn = Inr (g, y')
                \<longrightarrow> g = Array (mean y'))
          \<and> (\<forall>g y'. smooth_grad_torch X y m pf mode K sigma randn = Inr (g, y')
                \<longrightarrow> (\<exists>t. transpose_array [0, 2, 3, 1] (mean y') = Inr t \<and> g = Array t))"
proof -
  let ?a = "working_input pf X"
  show ?thesis
  proof (cases "data ?a = []")
    case True
    then show ?thesis
      by (simp add: Let_def smooth_grad_tf_def smooth_grad_torch_def np_max_def split: sum.splits)
  next
    case False
    have mx: "np_max (data ?a) = Inr (Max (set (data ?a)))" by (rule np_max_Max [OF False])
    have mn: "np_min (data ?a) = Inr (Min (set (data ?a)))" by (rule np_min_Min [OF False])
    show ?thesis
      unfolding Let_def smooth_grad_tf_def smooth_grad_torch_def mx mn
      by (auto simp: sample_loop_sum [OF assms] split: sum.splits)
  qed
qed

theorem smooth_grad_mean_witness:
  "smooth_grad_tf example_batch None example_model None ''classification'' 2 (1 / 7) example_randn
     = Inr (Array (arith_mean (map (\<lambda>i. grad_array example_model (Some [1, 2])
                     (perturbed (working_input None example_batch) (1 / 7 * (7 - 0)) example_randn i))
                [0..<nat 2])), Some [1, 2])
   \<and> smooth_grad_torch example_batch None example_model None ''classification'' 2 (1 / 7) example_randn
     = Inr (Array \<lparr>shape = [2, 2, 1, 2], data = [4, 8, 6, 10, 12, 16, 14, 18]\<rparr>, Some [1, 2])
   \<and> transpose_array [0, 2, 3, 1]
       (arith_mean (map (\<lambda>i. grad_array example_model (Some [1, 2])
                     (perturbed (working_input None example_batch) (1 / 7 * (7 - 0)) example_randn i))
                [0..<nat 2]))
     = Inr \<lparr>shape = [2, 2, 1, 2], data = [4, 8, 6, 10, 12, 16, 14, 18]\<rparr>"
proof -
  have mm: "Max (set (data (working_input None example_batch))) = 7"
       "Min (set (data (working_input None example_batch))) = 0"
    by (simp_all add: working_input_def example_batch_def)
  have "(1::int) \<le> 2" by simp
  from smooth_grad_mean [OF this, of None example_batch "1 / 7" example_model example_randn None
      "''classification''"]
  have tf: "\<forall>g y'. smooth_grad_tf example_batch None example_model None ''classification'' 2 (1 / 7)
                example_randn = Inr (g, y')
            \<longrightarrow> g = Array (arith_mean (map (\<lambda>i. grad_array example_model y'
                     (perturbed (working_input None example_batch) (1 / 7 * (7 - 0)) example_randn i))
                [0..<nat 2]))"
    and torch: "\<forall>g y'. smooth_grad_torch example_batch None example_model None ''classification'' 2 (1 / 7)
                example_randn = Inr (g, y')
            \<longrightarrow> (\<exists>t. transpose_array [0, 2, 3, 1] (arith_mean (map (\<lambda>i. grad_array example_model y'
                     (perturbed (working_input None example_batch) (1 / 7 * (7 - 0)) example_randn i))
                [0..<nat 2])) = Inr t \<and> g = Array t)"
    unfolding Let_def mm by blast+
  from tf example_tf_run have 1: "Array \<lparr>shape = [2, 2, 2, 1], data = [4, 6, 8, 10, 12, 14, 16, 18]\<rparr>
      = Array (arith_mean (map (\<lambda>i. grad_array example_model (Some [1, 2])
                     (perturbed (working_input None example_batch) (1 / 7 * (7 - 0)) example_randn i))
                [0..<nat 2]))"
    by blast
  from torch example_torch_run obtain t where
    2: "transpose_array [0, 2, 3, 1] (arith_mean (map (\<lambda>i. grad_array example_model (Some [1, 2])
                     (perturbed (working_input None example_batch) (1 / 7 * (7 - 0)) example_randn i))
                [0..<nat 2])) = Inr t"
    and 3: "Array \<lparr>shape = [2, 2, 1, 2], data = [4, 8, 6, 10, 12, 16, 14, 18]\<rparr> = Array t"
    by blast
  from 1 2 3 example_tf_run example_torch_run show ?thesis by simp
qed

section \<open>Properties of the guided-backpropagation code\<close>




text \<open>
  C10. Whenever the labels resolve, \<open>_guided_bp_torch\<close> ends with an empty list
  of hooks and an empty stack of activations, its cleanup removes no hook, and it
  returns None, not a pair of gradients and labels; the result depends neither
  on the number of samples nor on the noise level, and no derivative of the model
  is taken.
\<close>

theorem guided_bp_returns_nothing:
  assumes "resolve_labels mode y (image_len X) (forward m (working_input pf X)) = Inr y'"
  shows "guided_bp_torch X y m pf mode K sigma
       = Inr \<lparr>returned = None, hooks_left = [], activations_left = [], removed = []\<rparr>"
  using assms by (simp add: guided_bp_torch_def)

theorem guided_bp_returns_nothing_witness:
  "resolve_labels ''classification'' None (image_len example_batch)
       (forward example_model (working_input None example_batch)) = Inr (Some [1, 2])
   \<and> guided_bp_torch example_batch None example_model None ''classification'' 2 (1 / 7)
       = Inr \<lparr>returned = None, hooks_left = [], activations_left = [], removed = []\<rparr>"
proof -
  have r: "resolve_labels ''classification'' None (image_len example_batch)
       (forward example_model (working_input None example_batch)) = Inr (Some [1, 2])"
    by (simp add: example_defs engine_defs)
  from guided_bp_returns_nothing [OF r] r show ?thesis by simp
qed

end
